theory Spec2Isabelle
  imports Main "HOL-Library.Multiset"
begin

section \<open>JavaScript values and built-ins used by the collection store\<close>

text \<open>
  The model follows \<^verbatim>\<open>src/app/lib/projects.server.ts\<close>. Strings are character
  lists. An array of objects is a list of addresses read through a heap, because
  \<^verbatim>\<open>Array.prototype.indexOf\<close> compares objects by identity and not by their fields.
  The access token that every operation passes on to the provider is left out.
\<close>

type_synonym addr = nat
type_synonym 'a heap = "addr \<Rightarrow> 'a"

abbreviation NL :: string where
  "NL \<equiv> [CHR 0x0A]"

abbreviation DQ :: string where
  "DQ \<equiv> [CHR 0x22]"

text \<open>
  An attribute value has the declared type \<^verbatim>\<open>string | number\<close>. Numbers are modelled
  as integers, the values an order field takes; fractions, NaN and the infinities as
  attribute values are outside the model.
\<close>

datatype attr_value = AStr string | ANum int

text \<open>\<^verbatim>\<open>Object.entries(attributes)\<close>: the own properties in enumeration order.\<close>

type_synonym attributes = "(string \<times> attr_value) list"

definition decimal_digits :: string where
  "decimal_digits = ''0123456789''"

definition digit_char :: "nat \<Rightarrow> char" where
  "digit_char d = decimal_digits ! d"

fun string_of_nat :: "nat \<Rightarrow> string" where
  "string_of_nat n =
     (if n < 10 then [digit_char n] else string_of_nat (n div 10) @ [digit_char (n mod 10)])"

declare string_of_nat.simps [simp del]

text \<open>
  Number to string, as a template literal does it: the decimal numeral (for integers
  of magnitude below \<open>10\<^sup>2\<^sup>1\<close>), with a minus sign when negative.
\<close>

definition string_of_int :: "int \<Rightarrow> string" where
  "string_of_int i = (if i < 0 then ''-'' @ string_of_nat (nat (- i)) else string_of_nat (nat i))"

fun ToString :: "attr_value \<Rightarrow> string" where
  "ToString (AStr s) = s"
| "ToString (ANum n) = string_of_int n"

text \<open>
  Truthiness of a property read: \<^verbatim>\<open>undefined\<close> (no such key), the empty string and
  the number zero are falsy.
\<close>

fun truthy :: "attr_value option \<Rightarrow> bool" where
  "truthy None = False"
| "truthy (Some (AStr s)) = (s \<noteq> [])"
| "truthy (Some (ANum n)) = (n \<noteq> 0)"

text \<open>
  \<^verbatim>\<open>ToNumber\<close> of a property read, \<open>None\<close> standing for NaN. The conversion of a
  string (\<^verbatim>\<open>StringToNumber\<close>) is a parameter.
\<close>

fun ToNumber :: "(string \<Rightarrow> int option) \<Rightarrow> attr_value option \<Rightarrow> int option" where
  "ToNumber s2n None = None"
| "ToNumber s2n (Some (ANum n)) = Some n"
| "ToNumber s2n (Some (AStr s)) = s2n s"

text \<open>\<^verbatim>\<open>Array.prototype.join(sep)\<close> on an array of strings.\<close>

fun join :: "string \<Rightarrow> string list \<Rightarrow> string" where
  "join sep [] = []"
| "join sep [x] = x"
| "join sep (x # y # ys) = x @ sep @ join sep (y # ys)"

text \<open>\<^verbatim>\<open>Array.prototype.indexOf\<close>: the first position holding the element, or -1.\<close>

primrec indexOf :: "'a list \<Rightarrow> 'a \<Rightarrow> int" where
  "indexOf [] x = - 1"
| "indexOf (y # ys) x =
     (if y = x then 0 else (let i = indexOf ys x in if i < 0 then - 1 else i + 1))"

text \<open>\<^verbatim>\<open>xs[i]\<close>: the element, or \<^verbatim>\<open>undefined\<close> (here \<open>None\<close>) out of range.\<close>

definition js_index :: "'a list \<Rightarrow> int \<Rightarrow> 'a option" where
  "js_index xs i = (if 0 \<le> i \<and> i < int (length xs) then Some (xs ! nat i) else None)"

text \<open>
  \<^verbatim>\<open>Array.prototype.sort(cmp)\<close> is the engine's; the module runs on Node, whose
  engine is V8. The model is V8's sort for arrays shorter than 64 elements: the longest
  run at the front is found (a strictly descending run is reversed) and every later
  element is put into the sorted front by binary insertion. A comparator result of NaN
  counts as \<open>+0\<close>, so the only question asked of the comparator is whether its result
  is below zero. For longer arrays V8 sorts several such runs and merges them, which
  gives the same list whenever the comparator is a consistent ordering.
\<close>

definition cmp_lt :: "('a \<Rightarrow> 'a \<Rightarrow> int option) \<Rightarrow> 'a \<Rightarrow> 'a \<Rightarrow> bool" where
  "cmp_lt cmp x y = (case cmp x y of None \<Rightarrow> False | Some v \<Rightarrow> v < 0)"

text \<open>How many elements continue the run that ends in \<open>prev\<close>.\<close>

fun run_length :: "('a \<Rightarrow> 'a \<Rightarrow> int option) \<Rightarrow> bool \<Rightarrow> 'a \<Rightarrow> 'a list \<Rightarrow> nat" where
  "run_length cmp descending prev [] = 0"
| "run_length cmp descending prev (x # xs) =
     (if cmp_lt cmp x prev = descending then Suc (run_length cmp descending x xs) else 0)"

text \<open>The run at the front, made ascending, and the elements behind it.\<close>

fun count_and_make_run :: "('a \<Rightarrow> 'a \<Rightarrow> int option) \<Rightarrow> 'a list \<Rightarrow> 'a list \<times> 'a list" where
  "count_and_make_run cmp [] = ([], [])"
| "count_and_make_run cmp [x] = ([x], [])"
| "count_and_make_run cmp (x # y # rest) =
     (let descending = cmp_lt cmp y x;
          n = 2 + run_length cmp descending y rest;
          run = take n (x # y # rest)
      in (if descending then rev run else run, drop n (x # y # rest)))"

text \<open>The place of \<open>pivot\<close> in the sorted front, searched between \<open>left\<close> and \<open>right\<close>.\<close>

function binary_search :: "('a \<Rightarrow> 'a \<Rightarrow> int option) \<Rightarrow> 'a \<Rightarrow> 'a list \<Rightarrow> nat \<Rightarrow> nat \<Rightarrow> nat" where
  "binary_search cmp pivot front left right =
     (if left < right then
        (let mid = left + (right - left) div 2
         in if cmp_lt cmp pivot (front ! mid) then binary_search cmp pivot front left mid
            else binary_search cmp pivot front (mid + 1) right)
      else left)"
  by pat_completeness auto
termination
  by (relation "measure (\<lambda>(cmp, pivot, front, left, right). right - left)") auto

declare binary_search.simps [simp del]

definition binary_insert :: "('a \<Rightarrow> 'a \<Rightarrow> int option) \<Rightarrow> 'a list \<Rightarrow> 'a \<Rightarrow> 'a list" where
  "binary_insert cmp front pivot =
     (let left = binary_search cmp pivot front 0 (length front)
      in take left front @ pivot # drop left front)"

definition js_sort :: "('a \<Rightarrow> 'a \<Rightarrow> int option) \<Rightarrow> 'a list \<Rightarrow> 'a list" where
  "js_sort cmp xs =
     (if length xs < 2 then xs
      else (let (run, rest) = count_and_make_run cmp xs
            in foldl (binary_insert cmp) run rest))"

text \<open>\<^verbatim>\<open>route.replace(/^\//, '')\<close>: one leading slash is removed.\<close>

fun strip_leading_slash :: "string \<Rightarrow> string" where
  "strip_leading_slash [] = []"
| "strip_leading_slash (c # cs) = (if c = CHR ''/'' then cs else c # cs)"

section \<open>Data model\<close>

datatype FileMode = FILE | EXECUTABLE | SUBMODULE | SYMLINK | DIRECTORY

datatype ItemType = blob | tree

record TreeItem =
  ti_path :: string
  ti_sha :: string
  ti_mode :: FileMode
  ti_type :: ItemType

text \<open>The fields of \<^verbatim>\<open>ParsedFile\<close> that \<^verbatim>\<open>processFileContent\<close> picks.\<close>

record ParsedFile =
  pf_content :: string
  pf_sha :: string
  pf_path :: string

record Project =
  pr_id :: int
  pr_user :: string
  pr_title :: string
  pr_repo :: string
  pr_branch :: string

record ProjectCollection =
  pc_id :: string
  pc_name :: string
  pc_route :: string
  pc_template :: string

record FieldConfig =
  fc_name :: string
  fc_field :: string
  fc_default :: string
  fc_hidden :: bool

record ProjectTemplates =
  pt_id :: string
  pt_name :: string
  pt_fields :: "FieldConfig list"

record ProjectConfig =
  mediaFolder :: "string option"
  collections :: "ProjectCollection list"
  templates :: "ProjectTemplates list"

record CollectionFile =
  cf_id :: string
  cf_title :: attr_value
  cf_path :: string
  cf_attributes :: attributes
  cf_body :: string

record UpdateOrderParams =
  uo_repo :: string
  uo_branch :: string
  uo_collectionRoute :: string
  uo_files :: "addr list"

text \<open>One file change of a commit; \<open>ch_content\<close> is \<^verbatim>\<open>contents[i]\<close>, so it may be undefined.\<close>

record FileChange =
  ch_content :: "string option"
  ch_path :: string
  ch_mode :: FileMode
  ch_type :: ItemType

record CommitParams =
  cp_repo :: string
  cp_branch :: string
  cp_message :: string
  cp_files :: "FileChange list"

text \<open>The argument of the provider's \<^verbatim>\<open>getFileContent\<close>.\<close>

record FileQuery =
  fq_file :: string
  fq_repo :: string
  fq_branch :: string

text \<open>The argument of the provider's \<^verbatim>\<open>saveFile\<close>; \<open>sp_sha\<close> is optional.\<close>

record SaveParams =
  sp_sha :: "string option"
  sp_repo :: string
  sp_branch :: string
  sp_path :: string
  sp_content :: string
  sp_message :: string

text \<open>What the front-matter parser returns, as far as the code reads it.\<close>

record FrontMatterResult =
  fm_attributes :: attributes
  fm_body :: string

text \<open>
  The functions the module takes from elsewhere, as parameters: the path utilities
  (\<^verbatim>\<open>./pathUtils\<close>), the third-party front-matter parser (taken as total) and the
  engine's string-to-number conversion.
\<close>

record deps =
  getBasename :: "string \<Rightarrow> string"
  getDirname :: "string \<Rightarrow> string"
  isMarkdown :: "string \<Rightarrow> bool"
  matter :: "string \<Rightarrow> FrontMatterResult"
  StringToNumber :: "string \<Rightarrow> int option"

text \<open>The value thrown by \<^verbatim>\<open>getCollectionFiles\<close>: a response with body, status, status text.\<close>

datatype error = Response string nat string

section \<open>Configuration document\<close>

definition CONFIG_FILE_NAME :: string where
  "CONFIG_FILE_NAME = ''pressunto.config.json''"

definition CONFIG_FILE_TEMPLATE :: string where
  "CONFIG_FILE_TEMPLATE =
     ''{'' @ NL @ ''  '' @ DQ @ ''collections'' @ DQ @ '': [],'' @ NL
     @ ''  '' @ DQ @ ''templates'' @ DQ @ '': []'' @ NL @ ''}'' @ NL"

text \<open>
  \<^verbatim>\<open>createConfigFile\<close>. The provider's \<^verbatim>\<open>getRepoFiles\<close> and \<^verbatim>\<open>saveFile\<close> are
  parameters acting on a provider state \<open>'s\<close>; a listing is a heap of tree items and the
  array of their addresses.
\<close>

definition createConfigFile ::
  "(string \<Rightarrow> string \<Rightarrow> 's \<Rightarrow> TreeItem heap \<times> addr list) \<Rightarrow>
   (SaveParams \<Rightarrow> 's \<Rightarrow> ('e + unit) \<times> 's) \<Rightarrow> string \<Rightarrow> string \<Rightarrow> 's \<Rightarrow> ('e + unit) \<times> 's" where
  "createConfigFile getRepoFiles saveFile repo branch s =
     (let (th, repoTree) = getRepoFiles repo branch s;
          configFile = find (\<lambda>f. ti_path (th f) = CONFIG_FILE_NAME) repoTree
      in if configFile \<noteq> None then (Inr (), s)
         else saveFile \<lparr>sp_sha = None, sp_repo = repo, sp_branch = branch,
                        sp_path = CONFIG_FILE_NAME, sp_content = CONFIG_FILE_TEMPLATE,
                        sp_message = ''[skip ci] Create config file for Pressunto''\<rparr> s)"

text \<open>
  \<^verbatim>\<open>updateConfigFile\<close> awaits the fetch and then the save. \<open>between\<close> is what other
  writers do to the provider's state between the two calls; \<open>stringify\<close> stands for
  \<^verbatim>\<open>JSON.stringify(config, null, 2)\<close>.
\<close>

definition updateConfigFile ::
  "(FileQuery \<Rightarrow> 's \<Rightarrow> ParsedFile option) \<Rightarrow> (SaveParams \<Rightarrow> 's \<Rightarrow> ('e + unit) \<times> 's) \<Rightarrow>
   (ProjectConfig \<Rightarrow> string) \<Rightarrow> ('s \<Rightarrow> 's) \<Rightarrow> Project \<Rightarrow> ProjectConfig \<Rightarrow> 's \<Rightarrow> ('e + unit) \<times> 's" where
  "updateConfigFile getFileContent saveFile stringify between project config s =
     (let file = getFileContent \<lparr>fq_file = CONFIG_FILE_NAME, fq_repo = pr_repo project,
                                 fq_branch = pr_branch project\<rparr> s;
          s' = between s
      in saveFile \<lparr>sp_sha = map_option pf_sha file, sp_repo = pr_repo project,
                   sp_branch = (if pr_branch project \<noteq> [] then pr_branch project else ''master''),
                   sp_path = CONFIG_FILE_NAME, sp_content = stringify config,
                   sp_message = ''[skip ci] Update config file for Pressunto''\<rparr> s')"

section \<open>The collection loader\<close>

definition processFileContent :: "deps \<Rightarrow> ParsedFile \<Rightarrow> CollectionFile" where
  "processFileContent d fileContent =
     (let data = matter d (pf_content fileContent);
          title = (case map_of (fm_attributes data) ''title'' of
                     Some v \<Rightarrow> if truthy (Some v) then v
                               else AStr (getBasename d (pf_path fileContent))
                   | None \<Rightarrow> AStr (getBasename d (pf_path fileContent)))
      in \<lparr>cf_id = pf_sha fileContent, cf_title = title, cf_path = pf_path fileContent,
          cf_attributes = fm_attributes data, cf_body = fm_body data\<rparr>)"

text \<open>The filter over the tree listing.\<close>

definition collection_tree :: "deps \<Rightarrow> TreeItem heap \<Rightarrow> addr list \<Rightarrow> ProjectCollection \<Rightarrow> addr list" where
  "collection_tree d th tr collection =
     filter (\<lambda>f. let inCollection =
                       (getDirname d (ti_path (th f)) = strip_leading_slash (pc_route collection))
                 in inCollection \<and> isMarkdown d (ti_path (th f))) tr"

definition not_found :: "string \<Rightarrow> error" where
  "not_found p =
     Response (''Content for file '' @ DQ @ p @ DQ @ '' was not found in github API'')
       404 ''Not found''"

text \<open>The \<^verbatim>\<open>for (const f of collectionTree)\<close> loop; a throw ends it with \<open>Inl\<close>.\<close>

fun files_loop ::
  "deps \<Rightarrow> TreeItem heap \<Rightarrow> addr list \<Rightarrow> ParsedFile option list \<Rightarrow> addr list \<Rightarrow>
   CollectionFile list \<Rightarrow> error + CollectionFile list" where
  "files_loop d th collectionTree contents [] parsedFiles = Inr parsedFiles"
| "files_loop d th collectionTree contents (f # rest) parsedFiles =
     (case js_index contents (indexOf collectionTree f) of
        Some (Some fileContent) \<Rightarrow>
          files_loop d th collectionTree contents rest
            (parsedFiles @ [processFileContent d fileContent])
      | _ \<Rightarrow> Inl (not_found (ti_path (th f))))"

text \<open>\<^verbatim>\<open>(a, b) => a.attributes.order - b.attributes.order\<close>, \<open>None\<close> standing for NaN.\<close>

definition order_number :: "deps \<Rightarrow> CollectionFile \<Rightarrow> int option" where
  "order_number d a = ToNumber (StringToNumber d) (map_of (cf_attributes a) ''order'')"

definition order_cmp :: "deps \<Rightarrow> CollectionFile \<Rightarrow> CollectionFile \<Rightarrow> int option" where
  "order_cmp d a b =
     (case (order_number d a, order_number d b) of
        (Some x, Some y) \<Rightarrow> Some (x - y)
      | _ \<Rightarrow> None)"

text \<open>
  \<^verbatim>\<open>getCollectionFiles\<close>, reading one snapshot \<open>s\<close> of the provider's state through
  the provider's \<^verbatim>\<open>getRepoFiles\<close> and \<^verbatim>\<open>getFileContent\<close>.
\<close>

definition getCollectionFiles ::
  "deps \<Rightarrow> (string \<Rightarrow> string \<Rightarrow> 's \<Rightarrow> TreeItem heap \<times> addr list) \<Rightarrow>
   (FileQuery \<Rightarrow> 's \<Rightarrow> ParsedFile option) \<Rightarrow> Project \<Rightarrow> ProjectCollection \<Rightarrow> 's \<Rightarrow>
   error + CollectionFile list" where
  "getCollectionFiles d getRepoFiles getFileContent project collection s =
     (let (th, tr) = getRepoFiles (pr_repo project) (pr_branch project) s;
          collectionTree = collection_tree d th tr collection;
          contents = map (\<lambda>f. getFileContent \<lparr>fq_file = ti_path (th f), fq_repo = pr_repo project,
                                                fq_branch = pr_branch project\<rparr> s) collectionTree
      in case files_loop d th collectionTree contents collectionTree [] of
           Inl e \<Rightarrow> Inl e
         | Inr parsedFiles \<Rightarrow> Inr (js_sort (order_cmp d) parsedFiles))"

section \<open>The order and commit builder\<close>

text \<open>
  \<^verbatim>\<open>Object.entries(file.attributes).map(([key, value]) =>
     `${key}: ${key === 'order' ? files.indexOf(file) : value}`)\<close>
\<close>

definition matter_lines :: "CollectionFile heap \<Rightarrow> addr list \<Rightarrow> addr \<Rightarrow> string list" where
  "matter_lines h files file =
     map (\<lambda>(key, value). key @ '': '' @
            (if key = ''order'' then string_of_int (indexOf files file) else ToString value))
         (cf_attributes (h file))"

definition file_content :: "CollectionFile heap \<Rightarrow> addr list \<Rightarrow> addr \<Rightarrow> string" where
  "file_content h files file =
     (let matter = join NL (matter_lines h files file)
      in join NL [''---'', matter, ''---'', '''', cf_body (h file)])"

text \<open>The \<^verbatim>\<open>for (const file of files)\<close> loop, pushing one content per file.\<close>

fun contents_loop :: "CollectionFile heap \<Rightarrow> addr list \<Rightarrow> addr list \<Rightarrow> string list \<Rightarrow> string list" where
  "contents_loop h files [] contents = contents"
| "contents_loop h files (file # rest) contents =
     contents_loop h files rest (contents @ [file_content h files file])"

text \<open>\<^verbatim>\<open>files.map((f, i) => ({ content: contents[i], path: f.path, ... }))\<close>\<close>

definition file_changes :: "CollectionFile heap \<Rightarrow> addr list \<Rightarrow> string list \<Rightarrow> FileChange list" where
  "file_changes h files contents =
     map (\<lambda>(i, f). \<lparr>ch_content = js_index contents (int i), ch_path = cf_path (h f),
                     ch_mode = FILE, ch_type = blob\<rparr>)
         (zip [0 ..< length files] files)"

definition commit_request :: "CollectionFile heap \<Rightarrow> UpdateOrderParams \<Rightarrow> CommitParams" where
  "commit_request h payload =
     (let files = uo_files payload;
          contents = contents_loop h files files []
      in \<lparr>cp_repo = uo_repo payload, cp_branch = uo_branch payload,
          cp_message = ''Updated order for files in '' @ uo_collectionRoute payload,
          cp_files = file_changes h files contents\<rparr>)"


section \<open>Parts modelled from the specification\<close>

text \<open>
  Modelled from the spec: \<^verbatim>\<open>getDirname\<close> of the path utilities, whose code is not among
  the sources. The spec speaks of the parent directory of a repository-relative path:
  the part in front of the last slash, empty for an entry at the top.
\<close>

definition spec_getDirname :: "string \<Rightarrow> string" where
  "spec_getDirname p = rev (drop 1 (dropWhile (\<lambda>c. c \<noteq> CHR ''/'') (rev p)))"

text \<open>Modelled from the spec: a path matches an extension when it ends in it.\<close>

definition ends_with :: "string \<Rightarrow> string \<Rightarrow> bool" where
  "ends_with e p = (length e \<le> length p \<and> drop (length p - length e) p = e)"

text \<open>
  Modelled from the spec: \<^verbatim>\<open>isMarkdown\<close> of the path utilities, whose code is not among
  the sources. The spec asks for a path that matches a recognized text-document
  extension of the markdown family and does not list the family, so the recognized
  extensions are a parameter.
\<close>

definition spec_isMarkdown :: "string list \<Rightarrow> string \<Rightarrow> bool" where
  "spec_isMarkdown exts p = list_ex (\<lambda>e. ends_with e p) exts"

text \<open>
  Modelled from the spec: the state of the remote provider, whose client module is not
  among the sources. For every repository and branch it holds the documents by path,
  each with its content and its content identifier, and the write requests accepted so
  far.
\<close>

record StoredBlob =
  sb_content :: string
  sb_sha :: string

record Repository =
  r_files :: "string \<times> string \<Rightarrow> (string \<times> StoredBlob) list"
  r_writes :: "SaveParams list"

text \<open>
  Modelled from the spec: the Conflict error of the spec's taxonomy, a mismatch of
  content identifiers on a write.
\<close>

datatype provider_error = Conflict

text \<open>
  Modelled from the spec: the provider's tree listing \<^verbatim>\<open>getTree(repo, ref)\<close>, one fresh
  object per stored document.
\<close>

definition gh_getRepoFiles :: "string \<Rightarrow> string \<Rightarrow> Repository \<Rightarrow> TreeItem heap \<times> addr list" where
  "gh_getRepoFiles repo branch st =
     (let entries = r_files st (repo, branch)
      in (\<lambda>a. \<lparr>ti_path = fst (entries ! a), ti_sha = sb_sha (snd (entries ! a)),
                 ti_mode = FILE, ti_type = blob\<rparr>,
          [0 ..< length entries]))"

text \<open>
  Modelled from the spec: the provider's content fetch \<^verbatim>\<open>getBlob(repo, ref, path)\<close>,
  the content and its identifier, or absent.
\<close>

definition gh_getFileContent :: "FileQuery \<Rightarrow> Repository \<Rightarrow> ParsedFile option" where
  "gh_getFileContent q st =
     map_option (\<lambda>b. \<lparr>pf_content = sb_content b, pf_sha = sb_sha b, pf_path = fq_file q\<rparr>)
       (map_of (r_files st (fq_repo q, fq_branch q)) (fq_file q))"

text \<open>
  Modelled from the spec: a save replaces the document at its path, or adds it when the
  path is new; the other documents stay.
\<close>

fun put :: "string \<Rightarrow> StoredBlob \<Rightarrow> (string \<times> StoredBlob) list \<Rightarrow> (string \<times> StoredBlob) list" where
  "put p b [] = [(p, b)]"
| "put p b ((q, c) # rest) = (if q = p then (p, b) # rest else (q, c) # put p b rest)"

text \<open>
  Modelled from the spec: the provider's \<^verbatim>\<open>save(path, content, expectedSha?)\<close>. The
  write is accepted when the expected identifier is the current one of the document
  (none given for a document that does not exist) and rejected with Conflict otherwise;
  \<open>sha_of\<close> is the provider's content addressing.
\<close>

definition gh_saveFile ::
  "(string \<Rightarrow> string) \<Rightarrow> SaveParams \<Rightarrow> Repository \<Rightarrow> (provider_error + unit) \<times> Repository" where
  "gh_saveFile sha_of p st =
     (let k = (sp_repo p, sp_branch p);
          current = map_of (r_files st k) (sp_path p)
      in if map_option sb_sha current = sp_sha p
         then (Inr (),
               st\<lparr>r_files := (r_files st)
                     (k := put (sp_path p)
                             \<lparr>sb_content = sp_content p, sb_sha = sha_of (sp_content p)\<rparr>
                             (r_files st k)),
                  r_writes := r_writes st @ [p]\<rparr>)
         else (Inl Conflict, st))"


section \<open>Example inputs\<close>

definition example_docs :: "CollectionFile heap" where
  "example_docs a =
     (if a = 0 then
        \<lparr>cf_id = ''sha-a'', cf_title = AStr ''First'', cf_path = ''posts/a.md'',
         cf_attributes = [(''title'', AStr ''First''), (''order'', ANum 7)], cf_body = ''alpha''\<rparr>
      else if a = 1 then
        \<lparr>cf_id = ''sha-b'', cf_title = AStr ''b.md'', cf_path = ''posts/b.md'',
         cf_attributes = [], cf_body = ''beta''\<rparr>
      else if a = 2 then
        \<lparr>cf_id = ''sha-c'', cf_title = AStr ''Third'', cf_path = ''posts/c.md'',
         cf_attributes = [(''order'', ANum 0), (''title'', AStr ''Third'')], cf_body = ''gamma''\<rparr>
      else
        \<lparr>cf_id = ''sha-d'', cf_title = AStr ''Fourth'', cf_path = ''posts/d.md'',
         cf_attributes = [(''title'', AStr ''Fourth''), (''draft'', ANum 1)], cf_body = ''delta''\<rparr>)"

definition example_payload :: UpdateOrderParams where
  "example_payload =
     \<lparr>uo_repo = ''me/site'', uo_branch = ''main'', uo_collectionRoute = ''posts'',
      uo_files = [2, 0, 1, 3]\<rparr>"


text \<open>A document text with a metadata block, and one instance of the imported functions.\<close>

definition doc_text :: "string list \<Rightarrow> string \<Rightarrow> string" where
  "doc_text ls body = ''---'' @ NL @ join NL ls @ NL @ ''---'' @ NL @ NL @ body"

definition example_parses :: "(string \<times> FrontMatterResult) list" where
  "example_parses =
     [(doc_text [''order: 2''] ''third'', \<lparr>fm_attributes = [(''order'', ANum 2)], fm_body = ''third''\<rparr>),
      (doc_text [''order: 0''] ''first'', \<lparr>fm_attributes = [(''order'', ANum 0)], fm_body = ''first''\<rparr>),
      (doc_text [''order: 1''] ''second'', \<lparr>fm_attributes = [(''order'', ANum 1)], fm_body = ''second''\<rparr>),
      (doc_text [''title: Hello''] ''text'', \<lparr>fm_attributes = [(''title'', AStr ''Hello'')], fm_body = ''text''\<rparr>),
      (doc_text [''title: '' @ DQ @ DQ] ''text'', \<lparr>fm_attributes = [(''title'', AStr '''')], fm_body = ''text''\<rparr>),
      (doc_text [''title: Hello'', ''order: 7''] ''body text'',
       \<lparr>fm_attributes = [(''title'', AStr ''Hello''), (''order'', ANum 7)], fm_body = ''body text''\<rparr>),
      (doc_text [''title: Hello'', ''order: 0''] ''body text'',
       \<lparr>fm_attributes = [(''title'', AStr ''Hello''), (''order'', ANum 0)], fm_body = ''body text''\<rparr>),
      (doc_text [''title: Hello'', ''order: 1''] ''body text'',
       \<lparr>fm_attributes = [(''title'', AStr ''Hello''), (''order'', ANum 1)], fm_body = ''body text''\<rparr>)]"

definition example_matter :: "string \<Rightarrow> FrontMatterResult" where
  "example_matter text =
     (case map_of example_parses text of
        Some r \<Rightarrow> r
      | None \<Rightarrow> \<lparr>fm_attributes = [], fm_body = text\<rparr>)"

definition example_deps :: deps where
  "example_deps =
     \<lparr>getBasename = (\<lambda>p. rev (takeWhile (\<lambda>c. c \<noteq> CHR ''/'') (rev p))),
      getDirname = spec_getDirname,
      isMarkdown = spec_isMarkdown [''.md'', ''.markdown''],
      matter = example_matter,
      StringToNumber = (\<lambda>s. None)\<rparr>"

definition stored :: "string \<Rightarrow> string \<Rightarrow> StoredBlob" where
  "stored sha text = \<lparr>sb_content = text, sb_sha = sha\<rparr>"

definition repo_with :: "(string \<times> StoredBlob) list \<Rightarrow> Repository" where
  "repo_with entries =
     \<lparr>r_files = (\<lambda>k. if k = (''me/site'', ''main'') then entries else []), r_writes = []\<rparr>"

definition example_repo :: Repository where
  "example_repo =
     repo_with
       [(''posts/c.md'', stored ''s-c'' (doc_text [''order: 2''] ''third'')),
        (''README.md'', stored ''s-r'' ''read me''),
        (''posts/a.md'', stored ''s-a'' (doc_text [''order: 0''] ''first'')),
        (''posts/drafts/n.md'', stored ''s-n'' ''nested''),
        (''posts/b.md'', stored ''s-b'' (doc_text [''order: 1''] ''second''))]"

text \<open>Orders 1, none, 0 in listing order.\<close>

definition gap_repo :: Repository where
  "gap_repo =
     repo_with
       [(''posts/x.md'', stored ''s-x'' (doc_text [''order: 1''] ''second'')),
        (''posts/y.md'', stored ''s-y'' ''no metadata''),
        (''posts/z.md'', stored ''s-z'' (doc_text [''order: 0''] ''first''))]"

definition example_project :: Project where
  "example_project =
     \<lparr>pr_id = 1, pr_user = ''me'', pr_title = ''Site'', pr_repo = ''me/site'', pr_branch = ''main''\<rparr>"

definition example_collection :: ProjectCollection where
  "example_collection =
     \<lparr>pc_id = ''c1'', pc_name = ''Posts'', pc_route = ''/posts'', pc_template = ''t1''\<rparr>"

text \<open>A fetch that finds no content for one listed path.\<close>

definition fetch_without :: "string \<Rightarrow> FileQuery \<Rightarrow> Repository \<Rightarrow> ParsedFile option" where
  "fetch_without p q st = (if fq_file q = p then None else gh_getFileContent q st)"



text \<open>A repository that holds a configuration document, and a write by someone else.\<close>

definition config_repo :: Repository where
  "config_repo = repo_with [(CONFIG_FILE_NAME, stored ''v1'' CONFIG_FILE_TEMPLATE)]"

definition external_write :: "Repository \<Rightarrow> Repository" where
  "external_write st =
     st\<lparr>r_files := (r_files st)
           ((''me/site'', ''main'') := put CONFIG_FILE_NAME (stored ''v2'' ''{ }'')
                                          (r_files st (''me/site'', ''main'')))\<rparr>"

definition example_config :: ProjectConfig where
  "example_config = \<lparr>mediaFolder = None, collections = [example_collection], templates = []\<rparr>"

definition content_id :: "string \<Rightarrow> string" where
  "content_id c = ''id:'' @ c"





section \<open>Properties of the built-ins\<close>

lemma string_of_nat_nonempty: "string_of_nat n \<noteq> []" "[] \<noteq> string_of_nat n"
  by (subst string_of_nat.simps, simp)+

lemma digit_char_inj:
  assumes "a < 10" and "b < 10" and "digit_char a = digit_char b"
  shows "a = b"
proof -
  have d: "distinct decimal_digits" by (simp add: decimal_digits_def)
  have l: "length decimal_digits = 10" by (simp add: decimal_digits_def)
  from assms d l show ?thesis
    unfolding digit_char_def by (metis nth_eq_iff_index_eq)
qed

lemma string_of_nat_inj: "string_of_nat n = string_of_nat m \<Longrightarrow> n = m"
proof (induction n arbitrary: m rule: string_of_nat.induct)
  case (1 n)
  show ?case
  proof (cases "n < 10")
    case small_n: True
    show ?thesis
    proof (cases "m < 10")
      case True
      with small_n "1.prems" show ?thesis
        by (simp add: string_of_nat.simps [of n] string_of_nat.simps [of m] digit_char_inj)
    next
      case False
      with small_n "1.prems" show ?thesis
        by (simp add: string_of_nat.simps [of n] string_of_nat.simps [of m] string_of_nat_nonempty)
    qed
  next
    case big_n: False
    show ?thesis
    proof (cases "m < 10")
      case True
      with big_n "1.prems" show ?thesis
        by (simp add: string_of_nat.simps [of n] string_of_nat.simps [of m] string_of_nat_nonempty)
    next
      case False
      with big_n "1.prems" have e: "string_of_nat (n div 10) = string_of_nat (m div 10)"
        and d: "digit_char (n mod 10) = digit_char (m mod 10)"
        by (simp_all add: string_of_nat.simps [of n] string_of_nat.simps [of m])
      from "1.IH" [OF big_n e] have q: "n div 10 = m div 10" .
      from d have r: "n mod 10 = m mod 10" by (auto intro: digit_char_inj)
      from q r show ?thesis by (metis div_mult_mod_eq)
    qed
  qed
qed

lemma indexOf_nonneg_iff: "0 \<le> indexOf xs x \<longleftrightarrow> x \<in> set xs"
  by (induction xs) (auto simp: Let_def)

lemma indexOf_nth_distinct:
  assumes "distinct xs" and "i < length xs"
  shows "indexOf xs (xs ! i) = int i"
  using assms
proof (induction xs arbitrary: i)
  case Nil
  then show ?case by simp
next
  case (Cons y ys)
  show ?case
  proof (cases i)
    case 0
    then show ?thesis by simp
  next
    case (Suc k)
    with Cons.prems have k: "k < length ys" and d: "distinct ys" and ny: "y \<notin> set ys"
      by simp_all
    from k ny have "y \<noteq> ys ! k" by (metis nth_mem)
    with Cons.IH [OF d k] Suc show ?thesis by (simp add: Let_def)
  qed
qed

lemma indexOf_map_distinct:
  assumes "distinct xs"
  shows "map (indexOf xs) xs = map int [0 ..< length xs]"
  using assms by (intro nth_equalityI) (simp_all add: indexOf_nth_distinct)

lemma js_index_Cons_Suc: "0 \<le> i \<Longrightarrow> js_index (x # xs) (i + 1) = js_index xs i"
  by (auto simp: js_index_def nat_add_distrib)

lemma js_index_indexOf:
  assumes "f \<in> set xs"
  shows "js_index (map g xs) (indexOf xs f) = Some (g f)"
  using assms
proof (induction xs)
  case Nil
  then show ?case by simp
next
  case (Cons y ys)
  show ?case
  proof (cases "y = f")
    case True
    then show ?thesis by (simp add: js_index_def)
  next
    case False
    with Cons.prems have mem: "f \<in> set ys" by simp
    then have nonneg: "0 \<le> indexOf ys f" by (simp add: indexOf_nonneg_iff)
    from False nonneg have "indexOf (y # ys) f = indexOf ys f + 1"
      by (simp add: Let_def)
    with nonneg Cons.IH [OF mem] show ?thesis
      by (simp add: js_index_Cons_Suc)
  qed
qed

section \<open>Properties of the order and commit builder\<close>

lemmas example_simps = string_of_int_def string_of_nat.simps digit_char_def decimal_digits_def
  matter_lines_def example_docs_def example_payload_def

lemma contents_loop_map:
  "contents_loop h files rest acc = acc @ map (file_content h files) rest"
  by (induction rest arbitrary: acc) simp_all

lemma nth_file_changes:
  assumes "i < length files"
  shows "file_changes h files contents ! i =
           \<lparr>ch_content = js_index contents (int i), ch_path = cf_path (h (files ! i)),
            ch_mode = FILE, ch_type = blob\<rparr>"
  using assms by (simp add: file_changes_def)

lemma nth_commit_files:
  assumes "i < length (uo_files payload)"
  shows "cp_files (commit_request h payload) ! i =
           \<lparr>ch_content = Some (file_content h (uo_files payload) (uo_files payload ! i)),
            ch_path = cf_path (h (uo_files payload ! i)), ch_mode = FILE, ch_type = blob\<rparr>"
  using assms
  by (simp add: commit_request_def Let_def nth_file_changes contents_loop_map js_index_def)

lemma file_content_eq:
  "file_content h files file =
     ''---'' @ NL @ join NL (matter_lines h files file) @ NL @ ''---'' @ NL @ NL @ cf_body (h file)"
  by (simp add: file_content_def)


text \<open>
  C10. Every document of a reorder is written as a block between two \<open>---\<close> lines, a
  blank line and the body; a document without attributes gets an empty block in front
  of its unchanged body.
\<close>

theorem reorder_block_always_written:
  assumes "i < length (uo_files payload)"
  shows "ch_content (cp_files (commit_request h payload) ! i) =
           Some (''---'' @ NL @ join NL (matter_lines h (uo_files payload) (uo_files payload ! i))
                 @ NL @ ''---'' @ NL @ NL @ cf_body (h (uo_files payload ! i)))
         \<and> (cf_attributes (h (uo_files payload ! i)) = [] \<longrightarrow>
              ch_content (cp_files (commit_request h payload) ! i) =
                Some (''---'' @ NL @ NL @ ''---'' @ NL @ NL @ cf_body (h (uo_files payload ! i))))"
  using assms by (simp add: nth_commit_files file_content_eq matter_lines_def)

theorem reorder_block_always_written_witness:
  "2 < length (uo_files example_payload)
   \<and> cf_attributes (example_docs (uo_files example_payload ! 2)) = []
   \<and> ch_content (cp_files (commit_request example_docs example_payload) ! 2) =
       Some (''---'' @ NL @ NL @ ''---'' @ NL @ NL @ ''beta'')"
proof -
  have len: "2 < length (uo_files example_payload)"
    by (simp add: example_payload_def)
  have emp: "cf_attributes (example_docs (uo_files example_payload ! 2)) = []"
    by (simp add: example_payload_def example_docs_def)
  have body: "cf_body (example_docs (uo_files example_payload ! 2)) = ''beta''"
    by (simp add: example_payload_def example_docs_def)
  from reorder_block_always_written [OF len, of example_docs] emp
  have "ch_content (cp_files (commit_request example_docs example_payload) ! 2) =
          Some (''---'' @ NL @ NL @ ''---'' @ NL @ NL
                @ cf_body (example_docs (uo_files example_payload ! 2)))"
    by blast
  with len emp body show ?thesis by simp
qed

text \<open>
  What a reorder writes when no document object is listed twice: the lines of the
  document at position \<open>i\<close> are its attributes in their order, each as key and value,
  with \<open>i\<close> in place of the value of an \<open>order\<close> key. No line is added or left out;
  different positions are written as different numerals.
\<close>

theorem reorder_lines_at_position:
  assumes "distinct (uo_files payload)" and "i < length (uo_files payload)"
  shows "ch_content (cp_files (commit_request h payload) ! i) =
           Some (''---'' @ NL @ join NL (matter_lines h (uo_files payload) (uo_files payload ! i))
                 @ NL @ ''---'' @ NL @ NL @ cf_body (h (uo_files payload ! i)))
         \<and> matter_lines h (uo_files payload) (uo_files payload ! i)
             = map (\<lambda>(k, v). k @ '': '' @ (if k = ''order'' then string_of_nat i else ToString v))
                 (cf_attributes (h (uo_files payload ! i)))
         \<and> map (indexOf (uo_files payload)) (uo_files payload)
               = map int [0 ..< length (uo_files payload)]
         \<and> (\<forall>k. string_of_nat k = string_of_nat i \<longrightarrow> k = i)"
proof -
  let ?files = "uo_files payload"
  let ?f = "?files ! i"
  have idx: "string_of_int (indexOf ?files ?f) = string_of_nat i"
    using assms by (simp add: indexOf_nth_distinct string_of_int_def)
  have lines: "matter_lines h ?files ?f
             = map (\<lambda>(k, v). k @ '': '' @ (if k = ''order'' then string_of_nat i else ToString v))
                 (cf_attributes (h ?f))"
    unfolding matter_lines_def idx ..
  have content: "ch_content (cp_files (commit_request h payload) ! i) =
           Some (''---'' @ NL @ join NL (matter_lines h ?files ?f)
                 @ NL @ ''---'' @ NL @ NL @ cf_body (h ?f))"
    using assms(2) by (simp add: nth_commit_files file_content_eq)
  have all: "map (indexOf ?files) ?files = map int [0 ..< length ?files]"
    using assms(1) by (rule indexOf_map_distinct)
  have inj: "\<forall>k. string_of_nat k = string_of_nat i \<longrightarrow> k = i"
    by (blast dest: string_of_nat_inj)
  from content lines all inj show ?thesis by blast
qed

text \<open>
  C1. The claim asks that the content written for the document at position \<open>i\<close> carries
  order \<open>i\<close>, also for a document that had no \<open>order\<close> key. The code does not do that:
  of four distinct documents, the one at position 3 has the attributes \<open>title\<close> and
  \<open>draft\<close> and no \<open>order\<close>, and the content written for it has its two lines and no
  order line.
\<close>

theorem reorder_missing_order_no_line:
  "distinct (uo_files example_payload) \<and> length (uo_files example_payload) = 4
   \<and> cf_attributes (example_docs (uo_files example_payload ! 3))
       = [(''title'', AStr ''Fourth''), (''draft'', ANum 1)]
   \<and> ''order: '' @ string_of_nat 3
        \<notin> set (matter_lines example_docs (uo_files example_payload) (uo_files example_payload ! 3))
   \<and> ch_content (cp_files (commit_request example_docs example_payload) ! 3) =
       Some (''---'' @ NL @ ''title: Fourth'' @ NL @ ''draft: 1'' @ NL @ ''---'' @ NL @ NL @ ''delta'')"
proof -
  have len: "3 < length (uo_files example_payload)"
    by (simp add: example_payload_def)
  have lines: "matter_lines example_docs (uo_files example_payload) (uo_files example_payload ! 3)
                 = [''title: Fourth'', ''draft: 1'']"
    by (simp add: example_simps)
  have body: "cf_body (example_docs (uo_files example_payload ! 3)) = ''delta''"
    by (simp add: example_payload_def example_docs_def)
  have attrs: "cf_attributes (example_docs (uo_files example_payload ! 3))
       = [(''title'', AStr ''Fourth''), (''draft'', ANum 1)]"
    by (simp add: example_payload_def example_docs_def)
  have three: "string_of_nat 3 = ''3''"
    by (simp add: string_of_nat.simps digit_char_def decimal_digits_def)
  have shape: "distinct (uo_files example_payload) \<and> length (uo_files example_payload) = 4"
    by (simp add: example_payload_def)
  from len lines body three attrs shape show ?thesis
    by (simp add: nth_commit_files file_content_eq)
qed



section \<open>Properties of the collection loader\<close>

lemma files_loop_result:
  assumes "set rest \<subseteq> set ct"
  shows "files_loop d th ct (map fetch ct) rest acc =
           (case find (\<lambda>f. fetch f = None) rest of
              Some f0 \<Rightarrow> Inl (not_found (ti_path (th f0)))
            | None \<Rightarrow> Inr (acc @ map (\<lambda>f. processFileContent d (the (fetch f))) rest))"
  using assms
proof (induction rest arbitrary: acc)
  case Nil
  then show ?case by simp
next
  case (Cons f rest)
  from Cons.prems have mem: "f \<in> set ct" and sub: "set rest \<subseteq> set ct"
    by simp_all
  have at: "js_index (map fetch ct) (indexOf ct f) = Some (fetch f)"
    using mem by (rule js_index_indexOf)
  show ?case
  proof (cases "fetch f")
    case None
    with at show ?thesis by simp
  next
    case (Some fileContent)
    with at Cons.IH [OF sub] show ?thesis by (simp split: option.splits)
  qed
qed

lemma find_None_iff_all: "find P xs = None \<longleftrightarrow> (\<forall>x \<in> set xs. \<not> P x)"
  by (induction xs) auto

lemma length_binary_insert [simp]: "length (binary_insert cmp front pivot) = Suc (length front)"
  by (simp add: binary_insert_def Let_def)

lemma length_foldl_binary_insert:
  "length (foldl (binary_insert cmp) front rest) = length front + length rest"
  by (induction rest arbitrary: front) simp_all

lemma length_count_and_make_run:
  "length (fst (count_and_make_run cmp xs)) + length (snd (count_and_make_run cmp xs)) = length xs"
  by (induction cmp xs rule: count_and_make_run.induct) (auto simp: Let_def min_def)

lemma length_js_sort [simp]: "length (js_sort cmp xs) = length xs"
  using length_count_and_make_run [of cmp xs]
  by (simp add: js_sort_def case_prod_beta length_foldl_binary_insert)

lemma getCollectionFiles_unfold:
  assumes "getRepoFiles (pr_repo project) (pr_branch project) s = (th, tr)"
  shows "getCollectionFiles d getRepoFiles getFileContent project collection s =
           (let ct = collection_tree d th tr collection;
                fetch = (\<lambda>f. getFileContent \<lparr>fq_file = ti_path (th f), fq_repo = pr_repo project,
                                                fq_branch = pr_branch project\<rparr> s)
            in case find (\<lambda>f. fetch f = None) ct of
                 Some f0 \<Rightarrow> Inl (not_found (ti_path (th f0)))
               | None \<Rightarrow> Inr (js_sort (order_cmp d)
                                 (map (\<lambda>f. processFileContent d (the (fetch f))) ct)))"
  using assms
  by (simp add: getCollectionFiles_def Let_def files_loop_result split: option.splits)

text \<open>
  C9. The title of a parsed file is the parsed \<open>title\<close> attribute when that is truthy,
  and the base name of the path in every other case: no such attribute, the empty
  string, or the number zero.
\<close>

theorem title_falls_back_when_falsy:
  "(map_of (fm_attributes (matter d (pf_content fc))) ''title'' = None \<longrightarrow>
      cf_title (processFileContent d fc) = AStr (getBasename d (pf_path fc)))
   \<and> (map_of (fm_attributes (matter d (pf_content fc))) ''title'' = Some (AStr []) \<longrightarrow>
      cf_title (processFileContent d fc) = AStr (getBasename d (pf_path fc)))
   \<and> (map_of (fm_attributes (matter d (pf_content fc))) ''title'' = Some (ANum 0) \<longrightarrow>
      cf_title (processFileContent d fc) = AStr (getBasename d (pf_path fc)))
   \<and> (\<forall>v. map_of (fm_attributes (matter d (pf_content fc))) ''title'' = Some v
           \<and> v \<noteq> AStr [] \<and> v \<noteq> ANum 0 \<longrightarrow>
      cf_title (processFileContent d fc) = v)"
proof -
  have nonempty: "truthy (Some v)" if "v \<noteq> AStr []" and "v \<noteq> ANum 0" for v
    using that by (cases v) simp_all
  then show ?thesis
    by (simp add: processFileContent_def Let_def)
qed

theorem title_falls_back_when_falsy_witness:
  "map_of (fm_attributes (matter example_deps
       (pf_content \<lparr>pf_content = doc_text [''title: '' @ DQ @ DQ] ''text'', pf_sha = ''s'',
                    pf_path = ''posts/empty.md''\<rparr>))) ''title'' = Some (AStr [])
   \<and> cf_title (processFileContent example_deps
       \<lparr>pf_content = doc_text [''title: '' @ DQ @ DQ] ''text'', pf_sha = ''s'',
        pf_path = ''posts/empty.md''\<rparr>) = AStr ''empty.md''
   \<and> cf_title (processFileContent example_deps
       \<lparr>pf_content = doc_text [''title: Hello''] ''text'', pf_sha = ''s'',
        pf_path = ''posts/hello.md''\<rparr>) = AStr ''Hello''
   \<and> cf_title (processFileContent example_deps
       \<lparr>pf_content = ''no metadata'', pf_sha = ''s'', pf_path = ''posts/plain.md''\<rparr>)
       = AStr ''plain.md''"
proof -
  let ?e = "\<lparr>pf_content = doc_text [''title: '' @ DQ @ DQ] ''text'', pf_sha = ''s'',
             pf_path = ''posts/empty.md''\<rparr>"
  let ?h = "\<lparr>pf_content = doc_text [''title: Hello''] ''text'', pf_sha = ''s'',
             pf_path = ''posts/hello.md''\<rparr>"
  let ?p = "\<lparr>pf_content = ''no metadata'', pf_sha = ''s'', pf_path = ''posts/plain.md''\<rparr>"
  have e: "map_of (fm_attributes (matter example_deps (pf_content ?e))) ''title'' = Some (AStr [])"
    by (simp add: example_deps_def example_matter_def example_parses_def doc_text_def)
  have h: "map_of (fm_attributes (matter example_deps (pf_content ?h))) ''title''
             = Some (AStr ''Hello'')"
    by (simp add: example_deps_def example_matter_def example_parses_def doc_text_def)
  have p: "map_of (fm_attributes (matter example_deps (pf_content ?p))) ''title'' = None"
    by (simp add: example_deps_def example_matter_def example_parses_def doc_text_def)
  have be: "getBasename example_deps (pf_path ?e) = ''empty.md''"
    and bp: "getBasename example_deps (pf_path ?p) = ''plain.md''"
    by (simp_all add: example_deps_def)
  from title_falls_back_when_falsy [of example_deps ?e] e be
  have 1: "cf_title (processFileContent example_deps ?e) = AStr ''empty.md''"
    by simp
  from title_falls_back_when_falsy [of example_deps ?h] h
  have 2: "cf_title (processFileContent example_deps ?h) = AStr ''Hello''"
    by simp
  from title_falls_back_when_falsy [of example_deps ?p] p bp
  have 3: "cf_title (processFileContent example_deps ?p) = AStr ''plain.md''"
    by simp
  from e 1 2 3 show ?thesis by blast
qed

lemmas listing_simps = gh_getRepoFiles_def example_repo_def gap_repo_def repo_with_def
  example_project_def example_collection_def collection_tree_def example_deps_def
  spec_getDirname_def spec_isMarkdown_def ends_with_def stored_def Let_def

lemma example_listing:
  "collection_tree example_deps (fst (gh_getRepoFiles ''me/site'' ''main'' example_repo))
     (snd (gh_getRepoFiles ''me/site'' ''main'' example_repo)) example_collection = [0, 2, 4]"
  by (simp add: listing_simps upt_rec)

lemma example_paths:
  "ti_path (fst (gh_getRepoFiles ''me/site'' ''main'' example_repo) 0) = ''posts/c.md''"
  "ti_path (fst (gh_getRepoFiles ''me/site'' ''main'' example_repo) 2) = ''posts/a.md''"
  "ti_path (fst (gh_getRepoFiles ''me/site'' ''main'' example_repo) 4) = ''posts/b.md''"
  by (simp_all add: listing_simps)

text \<open>
  C3. When the fetch yields no content for some filtered entry, the load fails with the
  404 response that names the path of the first such entry, and no list is returned;
  when every filtered entry has content, the load returns a list with one document per
  filtered entry.
\<close>

theorem load_all_or_nothing:
  assumes "getRepoFiles (pr_repo project) (pr_branch project) s = (th, tr)"
  shows "((\<forall>f \<in> set (collection_tree d th tr collection).
            getFileContent \<lparr>fq_file = ti_path (th f), fq_repo = pr_repo project,
                            fq_branch = pr_branch project\<rparr> s \<noteq> None) \<longrightarrow>
          (\<exists>fs. getCollectionFiles d getRepoFiles getFileContent project collection s = Inr fs
                \<and> length fs = length (collection_tree d th tr collection)))
       \<and> (\<forall>f0. find (\<lambda>f. getFileContent \<lparr>fq_file = ti_path (th f), fq_repo = pr_repo project,
                                           fq_branch = pr_branch project\<rparr> s = None)
                   (collection_tree d th tr collection) = Some f0 \<longrightarrow>
            getCollectionFiles d getRepoFiles getFileContent project collection s
              = Inl (Response (''Content for file '' @ DQ @ ti_path (th f0) @ DQ
                               @ '' was not found in github API'') 404 ''Not found''))
       \<and> ((\<exists>f \<in> set (collection_tree d th tr collection).
             getFileContent \<lparr>fq_file = ti_path (th f), fq_repo = pr_repo project,
                             fq_branch = pr_branch project\<rparr> s = None) \<longrightarrow>
          (\<exists>f \<in> set (collection_tree d th tr collection).
             getFileContent \<lparr>fq_file = ti_path (th f), fq_repo = pr_repo project,
                             fq_branch = pr_branch project\<rparr> s = None
             \<and> getCollectionFiles d getRepoFiles getFileContent project collection s
                 = Inl (Response (''Content for file '' @ DQ @ ti_path (th f) @ DQ
                                  @ '' was not found in github API'') 404 ''Not found'')))"
proof -
  let ?ct = "collection_tree d th tr collection"
  let ?fetch = "\<lambda>f. getFileContent \<lparr>fq_file = ti_path (th f), fq_repo = pr_repo project,
                                      fq_branch = pr_branch project\<rparr> s"
  let ?res = "getCollectionFiles d getRepoFiles getFileContent project collection s"
  have unfold: "?res =
           (let ct = ?ct; fetch = ?fetch
            in case find (\<lambda>f. fetch f = None) ct of
                 Some f0 \<Rightarrow> Inl (not_found (ti_path (th f0)))
               | None \<Rightarrow> Inr (js_sort (order_cmp d)
                                 (map (\<lambda>f. processFileContent d (the (fetch f))) ct)))"
    using assms by (rule getCollectionFiles_unfold)
  have all: "\<exists>fs. ?res = Inr fs \<and> length fs = length ?ct" if "\<forall>f \<in> set ?ct. ?fetch f \<noteq> None"
  proof -
    from that have "find (\<lambda>f. ?fetch f = None) ?ct = None"
      by (simp add: find_None_iff_all)
    then show ?thesis by (simp add: unfold Let_def)
  qed
  have first: "?res = Inl (Response (''Content for file '' @ DQ @ ti_path (th f0) @ DQ
                               @ '' was not found in github API'') 404 ''Not found'')"
    if "find (\<lambda>f. ?fetch f = None) ?ct = Some f0" for f0
    using that by (simp add: unfold Let_def not_found_def)
  have some: "\<exists>f \<in> set ?ct. ?fetch f = None
                \<and> ?res = Inl (Response (''Content for file '' @ DQ @ ti_path (th f) @ DQ
                                  @ '' was not found in github API'') 404 ''Not found'')"
    if "\<exists>f \<in> set ?ct. ?fetch f = None"
  proof -
    from that have "find (\<lambda>f. ?fetch f = None) ?ct \<noteq> None"
      by (simp add: find_None_iff_all)
    then obtain f0 where f0: "find (\<lambda>f. ?fetch f = None) ?ct = Some f0"
      by blast
    then have "f0 \<in> set ?ct" and "?fetch f0 = None"
      by (auto simp: find_Some_iff)
    with first [OF f0] show ?thesis by blast
  qed
  from all first some show ?thesis by blast
qed


lemmas fetch_simps = gh_getFileContent_def fetch_without_def example_repo_def gap_repo_def
  repo_with_def example_project_def stored_def

theorem load_all_or_nothing_witness:
  "getCollectionFiles example_deps gh_getRepoFiles (fetch_without ''posts/a.md'')
     example_project example_collection example_repo
     = Inl (Response (''Content for file '' @ DQ @ ''posts/a.md'' @ DQ
                      @ '' was not found in github API'') 404 ''Not found'')
   \<and> (\<exists>fs. getCollectionFiles example_deps gh_getRepoFiles gh_getFileContent
               example_project example_collection example_repo = Inr fs
             \<and> length fs = 3)"
proof -
  let ?th = "fst (gh_getRepoFiles ''me/site'' ''main'' example_repo)"
  let ?tr = "snd (gh_getRepoFiles ''me/site'' ''main'' example_repo)"
  have listing: "gh_getRepoFiles (pr_repo example_project) (pr_branch example_project) example_repo
                   = (?th, ?tr)"
    by (simp add: example_project_def)
  note absent = load_all_or_nothing
    [where getRepoFiles = gh_getRepoFiles and project = example_project and s = example_repo
       and th = ?th and tr = ?tr and d = example_deps and collection = example_collection
       and getFileContent = "fetch_without ''posts/a.md''", OF listing]
  note present = load_all_or_nothing
    [where getRepoFiles = gh_getRepoFiles and project = example_project and s = example_repo
       and th = ?th and tr = ?tr and d = example_deps and collection = example_collection
       and getFileContent = gh_getFileContent, OF listing]
  have missing: "find (\<lambda>f. fetch_without ''posts/a.md''
                          \<lparr>fq_file = ti_path (?th f), fq_repo = pr_repo example_project,
                           fq_branch = pr_branch example_project\<rparr> example_repo = None)
                   (collection_tree example_deps ?th ?tr example_collection) = Some 2"
    unfolding example_listing by (simp add: fetch_simps gh_getRepoFiles_def Let_def)
  have found: "\<forall>f \<in> set (collection_tree example_deps ?th ?tr example_collection).
                 gh_getFileContent
                   \<lparr>fq_file = ti_path (?th f), fq_repo = pr_repo example_project,
                    fq_branch = pr_branch example_project\<rparr> example_repo \<noteq> None"
    unfolding example_listing by (simp add: fetch_simps gh_getRepoFiles_def Let_def)
  from absent missing have 1:
    "getCollectionFiles example_deps gh_getRepoFiles (fetch_without ''posts/a.md'')
       example_project example_collection example_repo
       = Inl (Response (''Content for file '' @ DQ @ ti_path (?th 2) @ DQ
                      @ '' was not found in github API'') 404 ''Not found'')"
    by blast
  from present found have 2:
    "\<exists>fs. getCollectionFiles example_deps gh_getRepoFiles gh_getFileContent
               example_project example_collection example_repo = Inr fs
           \<and> length fs = length (collection_tree example_deps ?th ?tr example_collection)"
    by blast
  from 1 2 show ?thesis by (simp add: example_listing example_paths numeral_3_eq_3)
qed


lemma gap_listing:
  "collection_tree example_deps (fst (gh_getRepoFiles ''me/site'' ''main'' gap_repo))
     (snd (gh_getRepoFiles ''me/site'' ''main'' gap_repo)) example_collection = [0, 1, 2]"
  by (simp add: listing_simps upt_rec)

lemmas parse_simps = processFileContent_def example_deps_def example_matter_def
  example_parses_def doc_text_def

lemmas sort_simps = js_sort_def cmp_lt_def binary_insert_def binary_search.simps order_cmp_def
  order_number_def Let_def

lemma example_fetched:
  "map (\<lambda>f. gh_getFileContent
               \<lparr>fq_file = ti_path (fst (gh_getRepoFiles ''me/site'' ''main'' example_repo) f),
                fq_repo = pr_repo example_project, fq_branch = pr_branch example_project\<rparr>
               example_repo)
       (collection_tree example_deps (fst (gh_getRepoFiles ''me/site'' ''main'' example_repo))
          (snd (gh_getRepoFiles ''me/site'' ''main'' example_repo)) example_collection)
     = map Some
         [\<lparr>pf_content = doc_text [''order: 2''] ''third'', pf_sha = ''s-c'', pf_path = ''posts/c.md''\<rparr>,
          \<lparr>pf_content = doc_text [''order: 0''] ''first'', pf_sha = ''s-a'', pf_path = ''posts/a.md''\<rparr>,
          \<lparr>pf_content = doc_text [''order: 1''] ''second'', pf_sha = ''s-b'', pf_path = ''posts/b.md''\<rparr>]"
  unfolding example_listing by (simp add: fetch_simps gh_getRepoFiles_def Let_def)

lemma gap_fetched:
  "map (\<lambda>f. gh_getFileContent
               \<lparr>fq_file = ti_path (fst (gh_getRepoFiles ''me/site'' ''main'' gap_repo) f),
                fq_repo = pr_repo example_project, fq_branch = pr_branch example_project\<rparr>
               gap_repo)
       (collection_tree example_deps (fst (gh_getRepoFiles ''me/site'' ''main'' gap_repo))
          (snd (gh_getRepoFiles ''me/site'' ''main'' gap_repo)) example_collection)
     = map Some
         [\<lparr>pf_content = doc_text [''order: 1''] ''second'', pf_sha = ''s-x'', pf_path = ''posts/x.md''\<rparr>,
          \<lparr>pf_content = ''no metadata'', pf_sha = ''s-y'', pf_path = ''posts/y.md''\<rparr>,
          \<lparr>pf_content = doc_text [''order: 0''] ''first'', pf_sha = ''s-z'', pf_path = ''posts/z.md''\<rparr>]"
  unfolding gap_listing by (simp add: fetch_simps gh_getRepoFiles_def Let_def)

lemma example_parsed:
  "processFileContent example_deps
     \<lparr>pf_content = doc_text [''order: 2''] ''third'', pf_sha = ''s-c'', pf_path = ''posts/c.md''\<rparr>
     = \<lparr>cf_id = ''s-c'', cf_title = AStr ''c.md'', cf_path = ''posts/c.md'',
        cf_attributes = [(''order'', ANum 2)], cf_body = ''third''\<rparr>"
  "processFileContent example_deps
     \<lparr>pf_content = doc_text [''order: 0''] ''first'', pf_sha = ''s-a'', pf_path = ''posts/a.md''\<rparr>
     = \<lparr>cf_id = ''s-a'', cf_title = AStr ''a.md'', cf_path = ''posts/a.md'',
        cf_attributes = [(''order'', ANum 0)], cf_body = ''first''\<rparr>"
  "processFileContent example_deps
     \<lparr>pf_content = doc_text [''order: 1''] ''second'', pf_sha = ''s-b'', pf_path = ''posts/b.md''\<rparr>
     = \<lparr>cf_id = ''s-b'', cf_title = AStr ''b.md'', cf_path = ''posts/b.md'',
        cf_attributes = [(''order'', ANum 1)], cf_body = ''second''\<rparr>"
  "processFileContent example_deps
     \<lparr>pf_content = doc_text [''order: 1''] ''second'', pf_sha = ''s-x'', pf_path = ''posts/x.md''\<rparr>
     = \<lparr>cf_id = ''s-x'', cf_title = AStr ''x.md'', cf_path = ''posts/x.md'',
        cf_attributes = [(''order'', ANum 1)], cf_body = ''second''\<rparr>"
  "processFileContent example_deps
     \<lparr>pf_content = ''no metadata'', pf_sha = ''s-y'', pf_path = ''posts/y.md''\<rparr>
     = \<lparr>cf_id = ''s-y'', cf_title = AStr ''y.md'', cf_path = ''posts/y.md'',
        cf_attributes = [], cf_body = ''no metadata''\<rparr>"
  "processFileContent example_deps
     \<lparr>pf_content = doc_text [''order: 0''] ''first'', pf_sha = ''s-z'', pf_path = ''posts/z.md''\<rparr>
     = \<lparr>cf_id = ''s-z'', cf_title = AStr ''z.md'', cf_path = ''posts/z.md'',
        cf_attributes = [(''order'', ANum 0)], cf_body = ''first''\<rparr>"
  by (simp_all add: parse_simps)

lemma example_loaded:
  "getCollectionFiles example_deps gh_getRepoFiles gh_getFileContent
     example_project example_collection example_repo
     = Inr [\<lparr>cf_id = ''s-a'', cf_title = AStr ''a.md'', cf_path = ''posts/a.md'',
              cf_attributes = [(''order'', ANum 0)], cf_body = ''first''\<rparr>,
            \<lparr>cf_id = ''s-b'', cf_title = AStr ''b.md'', cf_path = ''posts/b.md'',
              cf_attributes = [(''order'', ANum 1)], cf_body = ''second''\<rparr>,
            \<lparr>cf_id = ''s-c'', cf_title = AStr ''c.md'', cf_path = ''posts/c.md'',
              cf_attributes = [(''order'', ANum 2)], cf_body = ''third''\<rparr>]"
proof -
  have listing: "gh_getRepoFiles (pr_repo example_project) (pr_branch example_project) example_repo
                   = (fst (gh_getRepoFiles ''me/site'' ''main'' example_repo),
                      snd (gh_getRepoFiles ''me/site'' ''main'' example_repo))"
    by (simp add: example_project_def)
  show ?thesis
    unfolding getCollectionFiles_unfold
      [where getRepoFiles = gh_getRepoFiles and project = example_project and s = example_repo,
       OF listing] Let_def
    apply (simp only: example_listing)
    apply (simp add: fetch_simps gh_getRepoFiles_def Let_def)
    apply (simp add: parse_simps sort_simps)
    done
qed


lemma gap_loaded:
  "getCollectionFiles example_deps gh_getRepoFiles gh_getFileContent
     example_project example_collection gap_repo
     = Inr [\<lparr>cf_id = ''s-x'', cf_title = AStr ''x.md'', cf_path = ''posts/x.md'',
              cf_attributes = [(''order'', ANum 1)], cf_body = ''second''\<rparr>,
            \<lparr>cf_id = ''s-y'', cf_title = AStr ''y.md'', cf_path = ''posts/y.md'',
              cf_attributes = [], cf_body = ''no metadata''\<rparr>,
            \<lparr>cf_id = ''s-z'', cf_title = AStr ''z.md'', cf_path = ''posts/z.md'',
              cf_attributes = [(''order'', ANum 0)], cf_body = ''first''\<rparr>]"
proof -
  have listing: "gh_getRepoFiles (pr_repo example_project) (pr_branch example_project) gap_repo
                   = (fst (gh_getRepoFiles ''me/site'' ''main'' gap_repo),
                      snd (gh_getRepoFiles ''me/site'' ''main'' gap_repo))"
    by (simp add: example_project_def)
  show ?thesis
    unfolding getCollectionFiles_unfold
      [where getRepoFiles = gh_getRepoFiles and project = example_project and s = gap_repo,
       OF listing] Let_def
    apply (simp only: gap_listing)
    apply (simp add: fetch_simps gh_getRepoFiles_def Let_def)
    apply (simp add: parse_simps sort_simps)
    done
qed

text \<open>
  C4. The claim asks that the loaded documents come out ascending by order, documents
  of equal or missing order in fetch order. The code does not do that when a document
  without order stands between others: the comparator yields NaN against it, the sort
  takes the three documents of orders 1, none, 0 for one ascending run, and the loader
  returns them in that order, order 1 in front of order 0.
\<close>

theorem load_missing_order_not_ascending:
  "getCollectionFiles example_deps gh_getRepoFiles gh_getFileContent
     example_project example_collection gap_repo
     = Inr [\<lparr>cf_id = ''s-x'', cf_title = AStr ''x.md'', cf_path = ''posts/x.md'',
              cf_attributes = [(''order'', ANum 1)], cf_body = ''second''\<rparr>,
            \<lparr>cf_id = ''s-y'', cf_title = AStr ''y.md'', cf_path = ''posts/y.md'',
              cf_attributes = [], cf_body = ''no metadata''\<rparr>,
            \<lparr>cf_id = ''s-z'', cf_title = AStr ''z.md'', cf_path = ''posts/z.md'',
              cf_attributes = [(''order'', ANum 0)], cf_body = ''first''\<rparr>]
   \<and> order_number example_deps
        \<lparr>cf_id = ''s-x'', cf_title = AStr ''x.md'', cf_path = ''posts/x.md'',
         cf_attributes = [(''order'', ANum 1)], cf_body = ''second''\<rparr> = Some 1
   \<and> order_number example_deps
        \<lparr>cf_id = ''s-y'', cf_title = AStr ''y.md'', cf_path = ''posts/y.md'',
         cf_attributes = [], cf_body = ''no metadata''\<rparr> = None
   \<and> order_number example_deps
        \<lparr>cf_id = ''s-z'', cf_title = AStr ''z.md'', cf_path = ''posts/z.md'',
         cf_attributes = [(''order'', ANum 0)], cf_body = ''first''\<rparr> = Some 0"
  using gap_loaded by (simp add: order_number_def)




section \<open>Properties of the configuration lifecycle\<close>

lemma map_of_put: "map_of (put p b xs) q = (if q = p then Some b else map_of xs q)"
  by (induction xs) auto

lemma find_listing:
  "find (\<lambda>f. ti_path (fst (gh_getRepoFiles repo branch st) f) = p)
        (snd (gh_getRepoFiles repo branch st)) = None
   \<longleftrightarrow> map_of (r_files st (repo, branch)) p = None"
proof -
  let ?entries = "r_files st (repo, branch)"
  have "(\<forall>a \<in> {0 ..< length ?entries}. fst (?entries ! a) \<noteq> p) \<longleftrightarrow> p \<notin> fst ` set ?entries"
  proof
    assume none: "\<forall>a \<in> {0 ..< length ?entries}. fst (?entries ! a) \<noteq> p"
    show "p \<notin> fst ` set ?entries"
    proof
      assume "p \<in> fst ` set ?entries"
      then obtain x where x: "x \<in> set ?entries" and px: "fst x = p" by auto
      from x obtain a where "a < length ?entries" and "?entries ! a = x"
        by (auto simp: in_set_conv_nth)
      with none px show False by auto
    qed
  next
    assume absent: "p \<notin> fst ` set ?entries"
    show "\<forall>a \<in> {0 ..< length ?entries}. fst (?entries ! a) \<noteq> p"
    proof
      fix a
      assume "a \<in> {0 ..< length ?entries}"
      then have "?entries ! a \<in> set ?entries" by simp
      with absent show "fst (?entries ! a) \<noteq> p" by force
    qed
  qed
  then show ?thesis
    by (simp add: gh_getRepoFiles_def Let_def find_None_iff_all map_of_eq_None_iff)
qed

lemma createConfigFile_present:
  assumes "map_of (r_files st (repo, branch)) CONFIG_FILE_NAME \<noteq> None"
  shows "createConfigFile gh_getRepoFiles (gh_saveFile sha_of) repo branch st = (Inr (), st)"
proof -
  from assms have "find (\<lambda>f. ti_path (fst (gh_getRepoFiles repo branch st) f) = CONFIG_FILE_NAME)
        (snd (gh_getRepoFiles repo branch st)) \<noteq> None"
    by (simp add: find_listing)
  then show ?thesis
    by (simp add: createConfigFile_def Let_def case_prod_beta)
qed

lemma createConfigFile_absent:
  assumes "map_of (r_files st (repo, branch)) CONFIG_FILE_NAME = None"
  shows "createConfigFile gh_getRepoFiles (gh_saveFile sha_of) repo branch st =
           (Inr (),
            st\<lparr>r_files := (r_files st)
                  ((repo, branch) := put CONFIG_FILE_NAME
                      \<lparr>sb_content = CONFIG_FILE_TEMPLATE, sb_sha = sha_of CONFIG_FILE_TEMPLATE\<rparr>
                      (r_files st (repo, branch))),
               r_writes := r_writes st @
                  [\<lparr>sp_sha = None, sp_repo = repo, sp_branch = branch,
                    sp_path = CONFIG_FILE_NAME, sp_content = CONFIG_FILE_TEMPLATE,
                    sp_message = ''[skip ci] Create config file for Pressunto''\<rparr>]\<rparr>)"
proof -
  from assms have "find (\<lambda>f. ti_path (fst (gh_getRepoFiles repo branch st) f) = CONFIG_FILE_NAME)
        (snd (gh_getRepoFiles repo branch st)) = None"
    by (simp add: find_listing)
  with assms show ?thesis
    by (simp add: createConfigFile_def Let_def case_prod_beta gh_saveFile_def)
qed

text \<open>
  C7. Against the provider as the spec describes it, creating the configuration
  document twice in a row succeeds both times and the second call changes nothing. When
  the document exists at the start, the first call writes nothing either; when it does
  not, the two calls together make exactly one write, of the default content under the
  \<open>[skip ci]\<close> message, and the stored content is that default after either call.
\<close>

theorem ensure_config_idempotent:
  "let first = createConfigFile gh_getRepoFiles (gh_saveFile sha_of) repo branch st;
       second = createConfigFile gh_getRepoFiles (gh_saveFile sha_of) repo branch (snd first)
   in fst first = Inr () \<and> fst second = Inr () \<and> snd second = snd first
      \<and> (map_of (r_files st (repo, branch)) CONFIG_FILE_NAME \<noteq> None \<longrightarrow> snd first = st)
      \<and> (map_of (r_files st (repo, branch)) CONFIG_FILE_NAME = None \<longrightarrow>
           r_writes (snd second) = r_writes st @
             [\<lparr>sp_sha = None, sp_repo = repo, sp_branch = branch,
               sp_path = CONFIG_FILE_NAME, sp_content = CONFIG_FILE_TEMPLATE,
               sp_message = ''[skip ci] Create config file for Pressunto''\<rparr>]
           \<and> map_option sb_content (map_of (r_files (snd first) (repo, branch)) CONFIG_FILE_NAME)
               = Some CONFIG_FILE_TEMPLATE
           \<and> map_option sb_content (map_of (r_files (snd second) (repo, branch)) CONFIG_FILE_NAME)
               = Some CONFIG_FILE_TEMPLATE)"
proof (cases "map_of (r_files st (repo, branch)) CONFIG_FILE_NAME = None")
  case False
  then have 1: "createConfigFile gh_getRepoFiles (gh_saveFile sha_of) repo branch st = (Inr (), st)"
    by (rule createConfigFile_present)
  with False show ?thesis by (simp add: Let_def)
next
  case True
  let ?st1 = "snd (createConfigFile gh_getRepoFiles (gh_saveFile sha_of) repo branch st)"
  note 1 = createConfigFile_absent [OF True, of sha_of]
  have there: "map_of (r_files ?st1 (repo, branch)) CONFIG_FILE_NAME
                 = Some \<lparr>sb_content = CONFIG_FILE_TEMPLATE, sb_sha = sha_of CONFIG_FILE_TEMPLATE\<rparr>"
    by (simp add: 1 map_of_put)
  then have "map_of (r_files ?st1 (repo, branch)) CONFIG_FILE_NAME \<noteq> None"
    by simp
  then have 2: "createConfigFile gh_getRepoFiles (gh_saveFile sha_of) repo branch ?st1 = (Inr (), ?st1)"
    by (rule createConfigFile_present)
  have w: "r_writes ?st1 = r_writes st @
             [\<lparr>sp_sha = None, sp_repo = repo, sp_branch = branch,
               sp_path = CONFIG_FILE_NAME, sp_content = CONFIG_FILE_TEMPLATE,
               sp_message = ''[skip ci] Create config file for Pressunto''\<rparr>]"
    by (simp add: 1)
  have f: "fst (createConfigFile gh_getRepoFiles (gh_saveFile sha_of) repo branch st) = Inr ()"
    by (simp add: 1)
  from True 2 there w f show ?thesis by (simp add: Let_def)
qed


theorem ensure_config_idempotent_witness:
  "map_of (r_files example_repo (''me/site'', ''main'')) CONFIG_FILE_NAME = None
   \<and> (let first = createConfigFile gh_getRepoFiles (gh_saveFile content_id)
                     ''me/site'' ''main'' example_repo;
            second = createConfigFile gh_getRepoFiles (gh_saveFile content_id)
                     ''me/site'' ''main'' (snd first)
        in fst first = Inr () \<and> fst second = Inr () \<and> snd second = snd first
           \<and> length (r_writes (snd second)) = 1
           \<and> map_option sb_content
                (map_of (r_files (snd second) (''me/site'', ''main'')) CONFIG_FILE_NAME)
               = Some CONFIG_FILE_TEMPLATE)"
proof -
  have absent: "map_of (r_files example_repo (''me/site'', ''main'')) CONFIG_FILE_NAME = None"
    by (simp add: example_repo_def repo_with_def CONFIG_FILE_NAME_def)
  have log: "r_writes example_repo = []"
    by (simp add: example_repo_def repo_with_def)
  from ensure_config_idempotent [of content_id "''me/site''" "''main''" example_repo] absent log
  show ?thesis by (auto simp: Let_def)
qed

text \<open>
  C8. The update fetches the configuration document and saves with the fetched content
  identifier as the expected base. Against the provider as the spec describes it, with
  other writers acting between the fetch and the save: when the identifier of the
  addressed document is no longer the fetched one, the caller gets Conflict and the
  state stays as the other writers left it; otherwise the content is replaced. In
  particular a change of the document on the project's own (non-empty) branch between
  fetch and save ends in Conflict.
\<close>

theorem update_config_stale_base_conflicts:
  "let base = map_option pf_sha
                (gh_getFileContent \<lparr>fq_file = CONFIG_FILE_NAME, fq_repo = pr_repo project,
                                    fq_branch = pr_branch project\<rparr> st);
       target = (pr_repo project,
                 if pr_branch project \<noteq> [] then pr_branch project else ''master'');
       st' = between st;
       current = map_option sb_sha (map_of (r_files st' target) CONFIG_FILE_NAME);
       request = \<lparr>sp_sha = base, sp_repo = fst target, sp_branch = snd target,
                  sp_path = CONFIG_FILE_NAME, sp_content = stringify config,
                  sp_message = ''[skip ci] Update config file for Pressunto''\<rparr>;
       result = updateConfigFile gh_getFileContent (gh_saveFile sha_of) stringify between
                  project config st
   in result = gh_saveFile sha_of request st'
      \<and> (current \<noteq> base \<longrightarrow> result = (Inl Conflict, st'))
      \<and> (current = base \<longrightarrow>
            fst result = Inr ()
            \<and> r_writes (snd result) = r_writes st' @ [request]
            \<and> map_of (r_files (snd result) target) CONFIG_FILE_NAME
                = Some \<lparr>sb_content = stringify config, sb_sha = sha_of (stringify config)\<rparr>)
      \<and> (pr_branch project \<noteq> []
           \<and> map_option sb_sha
                (map_of (r_files st' (pr_repo project, pr_branch project)) CONFIG_FILE_NAME)
              \<noteq> map_option sb_sha
                (map_of (r_files st (pr_repo project, pr_branch project)) CONFIG_FILE_NAME) \<longrightarrow>
            result = (Inl Conflict, st'))"
proof -
  have base: "map_option pf_sha
                (gh_getFileContent \<lparr>fq_file = CONFIG_FILE_NAME, fq_repo = pr_repo project,
                                    fq_branch = pr_branch project\<rparr> st)
              = map_option sb_sha
                  (map_of (r_files st (pr_repo project, pr_branch project)) CONFIG_FILE_NAME)"
    by (simp add: gh_getFileContent_def option.map_comp comp_def)
  show ?thesis
    unfolding Let_def
    by (simp add: updateConfigFile_def gh_saveFile_def Let_def base map_of_put)
qed

theorem update_config_stale_base_conflicts_witness:
  "map_option sb_sha
     (map_of (r_files (external_write config_repo) (''me/site'', ''main'')) CONFIG_FILE_NAME)
     = Some ''v2''
   \<and> map_option sb_sha (map_of (r_files config_repo (''me/site'', ''main'')) CONFIG_FILE_NAME)
     = Some ''v1''
   \<and> updateConfigFile gh_getFileContent (gh_saveFile content_id) (\<lambda>c. ''{ new }'')
        external_write example_project example_config config_repo
     = (Inl Conflict, external_write config_repo)
   \<and> fst (updateConfigFile gh_getFileContent (gh_saveFile content_id) (\<lambda>c. ''{ new }'')
        id example_project example_config config_repo) = Inr ()"
proof -
  have after: "map_option sb_sha
     (map_of (r_files (external_write config_repo) (''me/site'', ''main'')) CONFIG_FILE_NAME)
     = Some ''v2''"
    by (simp add: external_write_def config_repo_def repo_with_def stored_def)
  have before: "map_option sb_sha
     (map_of (r_files config_repo (''me/site'', ''main'')) CONFIG_FILE_NAME) = Some ''v1''"
    by (simp add: config_repo_def repo_with_def stored_def)
  have proj: "pr_repo example_project = ''me/site''" "pr_branch example_project = ''main''"
    by (simp_all add: example_project_def)
  from update_config_stale_base_conflicts
    [of example_project config_repo external_write "\<lambda>c. ''{ new }''" example_config content_id]
    after before proj
  have conflict: "updateConfigFile gh_getFileContent (gh_saveFile content_id) (\<lambda>c. ''{ new }'')
        external_write example_project example_config config_repo
     = (Inl Conflict, external_write config_repo)"
    by (auto simp: Let_def)
  from update_config_stale_base_conflicts
    [of example_project config_repo id "\<lambda>c. ''{ new }''" example_config content_id]
    before proj
  have accepted: "fst (updateConfigFile gh_getFileContent (gh_saveFile content_id)
        (\<lambda>c. ''{ new }'') id example_project example_config config_repo) = Inr ()"
    by (auto simp: Let_def gh_getFileContent_def option.map_comp comp_def)
  from after before conflict accepted show ?thesis by blast
qed

section \<open>Properties of the document codec\<close>









end
